theory Spec2Isabelle
  imports Main
begin

section \<open>Data model (accounts/models.py)\<close>

text \<open>
  Dates, times of day and timestamps are the parsed values Django compares; only their
  order matters, so each is a natural number (days, ticks since midnight, ticks).
  Field names follow the models; where two models share a field name the booking's
  field gets the prefix \<open>b_\<close>, the leave's \<open>l_\<close>, the student's \<open>s_\<close>.
\<close>

type_synonym date = nat
type_synonym time = nat
type_synonym timestamp = nat

text \<open>Division: the (course, semester, division) triple.\<close>

record division =
  course :: string
  semester :: int
  division_letter :: string

text \<open>Teacher: the two scoped authorities; the nullable columns are options.\<close>

record teacher =
  is_batch_coordinator :: bool
  coordinator_course :: "string option"
  coordinator_semester :: "int option"
  coordinator_division :: "string option"
  is_hod :: bool
  hod_course :: "string option"

record student =
  student_id :: nat
  s_division :: division

text \<open>
  User: \<open>role\<close> is the CharField the views compare with string literals;
  \<open>teacher_profile\<close> and \<open>student_profile\<close> are the reverse one-to-one
  relations, absent (None) when no such row exists.
\<close>

record user =
  user_id :: nat
  role :: string
  teacher_profile :: "teacher option"
  student_profile :: "student option"

record room =
  room_id :: nat
  room_number :: string
  capacity :: nat

text \<open>
  RoomBooking. \<open>b_room\<close> and \<open>requested_by\<close> are the foreign keys (ids),
  \<open>b_division\<close> the nullable foreign key to Division.
\<close>

record room_booking =
  b_id :: nat
  b_room :: nat
  requested_by :: nat
  b_division :: "division option"
  purpose :: string
  booking_date :: date
  start_time :: time
  end_time :: time
  b_status :: string
  coordinator_approved :: bool
  hod_approved :: bool
  created_at :: timestamp

text \<open>The values of \<open>RoomBooking.STATUS_CHOICES\<close>.\<close>

definition STATUS_CHOICES :: "string list" where
  "STATUS_CHOICES = [''PENDING_COORDINATOR'', ''PENDING_HOD'', ''APPROVED'', ''REJECTED'']"

record student_leave =
  l_id :: nat
  l_student :: nat
  l_division :: division
  reason :: string
  from_date :: date
  to_date :: date
  document :: "string option"
  l_status :: string
  coordinator_remark :: "string option"
  applied_at :: timestamp
  decision_at :: "timestamp option"

text \<open>
  The persisted state: the Room, RoomBooking and StudentLeave tables in insertion
  order, and the last value each AutoField sequence has handed out.
\<close>

record state =
  rooms :: "room list"
  bookings :: "room_booking list"
  leaves :: "student_leave list"
  booking_seq :: nat
  leave_seq :: nat

section \<open>Responses (accounts/views.py)\<close>

text \<open>
  One constructor for each error response the workflow views return:
  \<^item> \<open>RoomNotFound\<close>: 404 "Room not found";
  \<^item> \<open>Conflict\<close>: 400 "Room already booked for the selected date and time";
  \<^item> \<open>InvalidRole\<close>: 400 "Invalid role";
  \<^item> \<open>BadRequest\<close>: 400 with \<open>str(e)\<close>, from \<open>except Exception\<close> in request_room;
  \<^item> \<open>Unauthorized\<close>: 403;
  \<^item> \<open>BookingNotFound\<close>, \<open>LeaveNotFound\<close>: 404;
  \<^item> \<open>InvalidAction\<close>: 400 "Invalid action";
  \<^item> \<open>ValidationError\<close>: 400 with the message dictionary of a ValidationError;
  \<^item> \<open>Unhandled\<close>: an exception no handler of the view catches.
  \<open>Created\<close> is a 201 response, \<open>Done\<close> a 200 response.
\<close>

datatype error =
    RoomNotFound
  | Conflict
  | InvalidRole
  | BadRequest
  | Unauthorized
  | BookingNotFound
  | LeaveNotFound
  | InvalidAction
  | ValidationError
  | Unhandled

datatype response = Created | Done | Failed error

section \<open>Room booking: request_room\<close>

text \<open>\<open>Room.objects.get(id=...)\<close>: None stands for Room.DoesNotExist.\<close>

definition get_room :: "state \<Rightarrow> nat \<Rightarrow> room option" where
  "get_room s rid = find (\<lambda>r. room_id r = rid) (rooms s)"

text \<open>
  The clash query of request_room:
  \<open>filter(room=room, booking_date=booking_date, status="APPROVED",
  start_time__lt=end_time, end_time__gt=start_time).exists()\<close>.
\<close>

definition clash_exists :: "state \<Rightarrow> nat \<Rightarrow> date \<Rightarrow> time \<Rightarrow> time \<Rightarrow> bool" where
  "clash_exists s rid bdate st en =
     list_ex (\<lambda>b. b_room b = rid \<and> booking_date b = bdate \<and> b_status b = ''APPROVED''
                  \<and> start_time b < en \<and> end_time b > st) (bookings s)"

text \<open>
  \<open>RoomBooking.objects.create(...)\<close>: the row gets the next id of the sequence, the
  model's defaults for both approval flags (False) and \<open>created_at\<close> from the clock.
\<close>

definition create_booking ::
  "state \<Rightarrow> timestamp \<Rightarrow> nat \<Rightarrow> nat \<Rightarrow> division option \<Rightarrow> string \<Rightarrow> date \<Rightarrow> time \<Rightarrow> time \<Rightarrow> string \<Rightarrow> state" where
  "create_booking s now rid uid dv p bdate st en stat =
     s\<lparr>bookings := bookings s @
          [\<lparr>b_id = Suc (booking_seq s), b_room = rid, requested_by = uid, b_division = dv,
            purpose = p, booking_date = bdate, start_time = st, end_time = en,
            b_status = stat, coordinator_approved = False, hod_approved = False,
            created_at = now\<rparr>],
       booking_seq := Suc (booking_seq s)\<rparr>"

text \<open>The body of a request_room call: \<open>request.data\<close> with its values parsed.\<close>

record room_request =
  rq_room_id :: nat
  rq_purpose :: string
  rq_booking_date :: date
  rq_start_time :: time
  rq_end_time :: time

text \<open>
  request_room, in the order of the source: the room lookup, the clash check, then the
  dispatch on the requester's role. A student without a student profile raises inside
  the \<open>try\<close>, which \<open>except Exception\<close> turns into a 400.
\<close>

definition request_room :: "state \<Rightarrow> timestamp \<Rightarrow> user \<Rightarrow> room_request \<Rightarrow> response \<times> state" where
  "request_room s now u d =
     (case get_room s (rq_room_id d) of
        None \<Rightarrow> (Failed RoomNotFound, s)
      | Some r \<Rightarrow>
          if clash_exists s (room_id r) (rq_booking_date d) (rq_start_time d) (rq_end_time d)
          then (Failed Conflict, s)
          else if role u = ''student'' then
            (case student_profile u of
               None \<Rightarrow> (Failed BadRequest, s)
             | Some st \<Rightarrow>
                 (Created,
                  create_booking s now (room_id r) (user_id u) (Some (s_division st))
                    (rq_purpose d) (rq_booking_date d) (rq_start_time d) (rq_end_time d)
                    ''PENDING_COORDINATOR''))
          else if role u = ''teacher'' then
            (Created,
             create_booking s now (room_id r) (user_id u) None
               (rq_purpose d) (rq_booking_date d) (rq_start_time d) (rq_end_time d)
               ''PENDING_HOD'')
          else (Failed InvalidRole, s))"

section \<open>Room booking: coordinator_action and hod_action\<close>

text \<open>\<open>RoomBooking.objects.get(id=booking_id)\<close>.\<close>

definition get_booking :: "state \<Rightarrow> nat \<Rightarrow> room_booking option" where
  "get_booking s i = find (\<lambda>b. b_id b = i) (bookings s)"

text \<open>\<open>booking.save()\<close>: the update of the row whose primary key is the object's id.\<close>

definition save_booking :: "state \<Rightarrow> room_booking \<Rightarrow> state" where
  "save_booking s b = s\<lparr>bookings := map (\<lambda>x. if b_id x = b_id b then b else x) (bookings s)\<rparr>"

text \<open>
  \<open>action = request.data.get("action")\<close> is None when the key is missing. The gate
  \<open>user.role != 'teacher' or not user.teacher_profile.is_batch_coordinator\<close>
  short-circuits; reading the profile of a teacher user that has none raises outside
  the \<open>try\<close>.
\<close>

definition coordinator_action :: "state \<Rightarrow> user \<Rightarrow> nat \<Rightarrow> string option \<Rightarrow> response \<times> state" where
  "coordinator_action s u booking_id action =
     (if role u \<noteq> ''teacher'' then (Failed Unauthorized, s)
      else (case teacher_profile u of
        None \<Rightarrow> (Failed Unhandled, s)
      | Some t \<Rightarrow>
          if \<not> is_batch_coordinator t then (Failed Unauthorized, s)
          else (case get_booking s booking_id of
            None \<Rightarrow> (Failed BookingNotFound, s)
          | Some booking \<Rightarrow>
              if action = Some ''approve'' then
                (Done, save_booking s
                   (booking\<lparr>b_status := ''PENDING_HOD'', coordinator_approved := True\<rparr>))
              else if action = Some ''reject'' then
                (Done, save_booking s (booking\<lparr>b_status := ''REJECTED''\<rparr>))
              else (Failed InvalidAction, s))))"

definition hod_action :: "state \<Rightarrow> user \<Rightarrow> nat \<Rightarrow> string option \<Rightarrow> response \<times> state" where
  "hod_action s u booking_id action =
     (if role u \<noteq> ''teacher'' then (Failed Unauthorized, s)
      else (case teacher_profile u of
        None \<Rightarrow> (Failed Unhandled, s)
      | Some t \<Rightarrow>
          if \<not> is_hod t then (Failed Unauthorized, s)
          else (case get_booking s booking_id of
            None \<Rightarrow> (Failed BookingNotFound, s)
          | Some booking \<Rightarrow>
              if action = Some ''approve'' then
                (Done, save_booking s
                   (booking\<lparr>b_status := ''APPROVED'', hod_approved := True\<rparr>))
              else if action = Some ''reject'' then
                (Done, save_booking s (booking\<lparr>b_status := ''REJECTED''\<rparr>))
              else (Failed InvalidAction, s))))"

section \<open>Room booking: the pending lists\<close>

text \<open>
  coordinator_requests: behind the same gate as coordinator_action, the bookings with
  status PENDING_COORDINATOR whose division has the coordinator's course, semester and
  division. A lookup through the nullable foreign key compares the column of the
  joined row, NULL when the booking has no division, with the teacher's value.
\<close>

definition coordinator_requests :: "state \<Rightarrow> user \<Rightarrow> error + room_booking list" where
  "coordinator_requests s u =
     (if role u \<noteq> ''teacher'' then Inl Unauthorized
      else (case teacher_profile u of
        None \<Rightarrow> Inl Unhandled
      | Some t \<Rightarrow>
          if \<not> is_batch_coordinator t then Inl Unauthorized
          else Inr (filter (\<lambda>b. b_status b = ''PENDING_COORDINATOR''
                      \<and> map_option course (b_division b) = coordinator_course t
                      \<and> map_option semester (b_division b) = coordinator_semester t
                      \<and> map_option division_letter (b_division b) = coordinator_division t)
                    (bookings s))))"

text \<open>
  hod_requests: behind the same gate as hod_action, the bookings with status
  PENDING_HOD, skipping those for which
  \<open>b.division and b.division.course != hod_course\<close> holds (the source's comment:
  "filter student bookings by HOD course").
\<close>

definition hod_requests :: "state \<Rightarrow> user \<Rightarrow> error + room_booking list" where
  "hod_requests s u =
     (if role u \<noteq> ''teacher'' then Inl Unauthorized
      else (case teacher_profile u of
        None \<Rightarrow> Inl Unhandled
      | Some t \<Rightarrow>
          if \<not> is_hod t then Inl Unauthorized
          else Inr (filter (\<lambda>b. b_status b = ''PENDING_HOD''
                      \<and> (case b_division b of
                            None \<Rightarrow> True
                          | Some d \<Rightarrow> Some (course d) = hod_course t))
                    (bookings s))))"

section \<open>Student leave: apply_leave and coordinator_leave_action\<close>

text \<open>The body of an apply_leave call, with its dates parsed.\<close>

record leave_request =
  rq_reason :: string
  rq_from_date :: date
  rq_to_date :: date
  rq_document :: "string option"

text \<open>
  \<open>leave.full_clean()\<close>: the field checks, then \<open>StudentLeave.clean\<close>. Of the field
  checks only the one on \<open>reason\<close> can fail on a leave the view builds: \<open>reason\<close> is a
  \<open>TextField()\<close> declared without \<open>blank=True\<close>, so an empty reason is refused.
  \<open>StudentLeave.clean\<close> raises when \<open>to_date < from_date\<close>. The functions return
  True when no ValidationError is raised.
\<close>

definition clean_fields :: "student_leave \<Rightarrow> bool" where
  "clean_fields l = (reason l \<noteq> [])"

definition StudentLeave_clean :: "student_leave \<Rightarrow> bool" where
  "StudentLeave_clean l = (\<not> to_date l < from_date l)"

definition full_clean :: "student_leave \<Rightarrow> bool" where
  "full_clean l = (clean_fields l \<and> StudentLeave_clean l)"

text \<open>
  apply_leave: the role gate, then the student's profile (its absence raises an
  exception that \<open>except ValidationError\<close> does not catch), then validation and the
  insert. The new row has the model's defaults: status PENDING, no remark, no decision
  time; \<open>applied_at\<close> comes from the clock and the id from the sequence.
\<close>

definition apply_leave :: "state \<Rightarrow> timestamp \<Rightarrow> user \<Rightarrow> leave_request \<Rightarrow> response \<times> state" where
  "apply_leave s now u d =
     (if role u \<noteq> ''student'' then (Failed Unauthorized, s)
      else (case student_profile u of
        None \<Rightarrow> (Failed Unhandled, s)
      | Some st \<Rightarrow>
          let leave = \<lparr>l_id = Suc (leave_seq s), l_student = student_id st,
                       l_division = s_division st, reason = rq_reason d,
                       from_date = rq_from_date d, to_date = rq_to_date d,
                       document = rq_document d, l_status = ''PENDING'',
                       coordinator_remark = None, applied_at = now, decision_at = None\<rparr>
          in if full_clean leave
             then (Created, s\<lparr>leaves := leaves s @ [leave], leave_seq := Suc (leave_seq s)\<rparr>)
             else (Failed ValidationError, s)))"

definition get_leave :: "state \<Rightarrow> nat \<Rightarrow> student_leave option" where
  "get_leave s i = find (\<lambda>l. l_id l = i) (leaves s)"

definition save_leave :: "state \<Rightarrow> student_leave \<Rightarrow> state" where
  "save_leave s l = s\<lparr>leaves := map (\<lambda>x. if l_id x = l_id l then l else x) (leaves s)\<rparr>"

text \<open>
  The \<open>remark\<close> entry of the body of a coordinator_leave_action call: the key can be
  missing, carry an explicit null, or carry a text.
\<close>

datatype remark_field = RemarkMissing | RemarkNull | RemarkText string

text \<open>
  coordinator_leave_action. \<open>remark = request.data.get("remark", "")\<close> is the empty
  string when the key is missing and None when the body carries an explicit null, which
  the view stores as it is (the column is nullable); \<open>now\<close> is the value of
  \<open>now()\<close>.
\<close>

definition coordinator_leave_action ::
  "state \<Rightarrow> timestamp \<Rightarrow> user \<Rightarrow> nat \<Rightarrow> string option \<Rightarrow> remark_field \<Rightarrow> response \<times> state" where
  "coordinator_leave_action s now u leave_id action remark_in =
     (if role u \<noteq> ''teacher'' then (Failed Unauthorized, s)
      else (case teacher_profile u of
        None \<Rightarrow> (Failed Unhandled, s)
      | Some t \<Rightarrow>
          if \<not> is_batch_coordinator t then (Failed Unauthorized, s)
          else
            let remark = (case remark_in of
                            RemarkMissing \<Rightarrow> Some []
                          | RemarkNull \<Rightarrow> None
                          | RemarkText r \<Rightarrow> Some r) in
            (case get_leave s leave_id of
              None \<Rightarrow> (Failed LeaveNotFound, s)
            | Some leave \<Rightarrow>
                if action = Some ''approve'' then
                  (Done, save_leave s
                     (leave\<lparr>l_status := ''APPROVED'', coordinator_remark := remark,
                            decision_at := Some now\<rparr>))
                else if action = Some ''reject'' then
                  (Done, save_leave s
                     (leave\<lparr>l_status := ''REJECTED'', coordinator_remark := remark,
                            decision_at := Some now\<rparr>))
                else (Failed InvalidAction, s))))"

text \<open>
  coordinator_leave_requests: behind the same gate as coordinator_leave_action, the
  leaves with status PENDING whose division has the coordinator's course, semester and
  division (the division of a leave is not nullable).
\<close>

definition coordinator_leave_requests :: "state \<Rightarrow> user \<Rightarrow> error + student_leave list" where
  "coordinator_leave_requests s u =
     (if role u \<noteq> ''teacher'' then Inl Unauthorized
      else (case teacher_profile u of
        None \<Rightarrow> Inl Unhandled
      | Some t \<Rightarrow>
          if \<not> is_batch_coordinator t then Inl Unauthorized
          else Inr (filter (\<lambda>l. l_status l = ''PENDING''
                      \<and> Some (course (l_division l)) = coordinator_course t
                      \<and> Some (semester (l_division l)) = coordinator_semester t
                      \<and> Some (division_letter (l_division l)) = coordinator_division t)
                    (leaves s))))"

section \<open>Operations and runs\<close>

text \<open>The five workflow requests, and their sequential execution on the state.\<close>

datatype op =
    RequestRoom timestamp user room_request
  | CoordinatorAction user nat "string option"
  | HodAction user nat "string option"
  | ApplyLeave timestamp user leave_request
  | CoordinatorLeaveAction timestamp user nat "string option" remark_field

fun step :: "state \<Rightarrow> op \<Rightarrow> response \<times> state" where
  "step s (RequestRoom now u d) = request_room s now u d"
| "step s (CoordinatorAction u i a) = coordinator_action s u i a"
| "step s (HodAction u i a) = hod_action s u i a"
| "step s (ApplyLeave now u d) = apply_leave s now u d"
| "step s (CoordinatorLeaveAction now u i a r) = coordinator_leave_action s now u i a r"

text \<open>\<open>run\<close> executes requests one after the other and collects the responses.\<close>

fun run :: "state \<Rightarrow> op list \<Rightarrow> response list \<times> state" where
  "run s [] = ([], s)"
| "run s (x # xs) =
     (case step s x of (r, s') \<Rightarrow> (case run s' xs of (rs, s'') \<Rightarrow> (r # rs, s'')))"

section \<open>Primary keys and approval flags\<close>

text \<open>
  The primary-key constraint of the RoomBooking table: ids are unique, and none is
  ahead of the AutoField sequence.
\<close>

definition pk_ok :: "state \<Rightarrow> bool" where
  "pk_ok s = (distinct (map b_id (bookings s))
              \<and> list_all (\<lambda>b. b_id b \<le> booking_seq s) (bookings s))"

text \<open>
  \<open>flag_kept b b'\<close>: \<open>b'\<close> is the row \<open>b\<close> at a later time, and each approval flag
  is either unchanged or True.
\<close>

definition flag_kept :: "room_booking \<Rightarrow> room_booking \<Rightarrow> bool" where
  "flag_kept b b' =
     (b_id b' = b_id b
      \<and> (coordinator_approved b' = coordinator_approved b \<or> coordinator_approved b')
      \<and> (hod_approved b' = hod_approved b \<or> hod_approved b'))"

section \<open>Example data\<close>

text \<open>
  Two divisions of MCA semester 1, a student of each, the batch coordinator of
  division A, the heads of department of MCA and of MMS, and an admin.
\<close>

definition div_A :: division where
  "div_A = \<lparr>course = ''MCA'', semester = 1, division_letter = ''A''\<rparr>"

definition div_B :: division where
  "div_B = \<lparr>course = ''MCA'', semester = 1, division_letter = ''B''\<rparr>"

definition student_A :: user where
  "student_A = \<lparr>user_id = 1, role = ''student'', teacher_profile = None,
                 student_profile = Some \<lparr>student_id = 1, s_division = div_A\<rparr>\<rparr>"

definition student_B :: user where
  "student_B = \<lparr>user_id = 2, role = ''student'', teacher_profile = None,
                 student_profile = Some \<lparr>student_id = 2, s_division = div_B\<rparr>\<rparr>"

definition coord_A_profile :: teacher where
  "coord_A_profile = \<lparr>is_batch_coordinator = True, coordinator_course = Some ''MCA'',
                       coordinator_semester = Some 1, coordinator_division = Some ''A'',
                       is_hod = False, hod_course = None\<rparr>"

definition coord_A :: user where
  "coord_A = \<lparr>user_id = 3, role = ''teacher'', teacher_profile = Some coord_A_profile,
               student_profile = None\<rparr>"

definition hod_MCA_profile :: teacher where
  "hod_MCA_profile = \<lparr>is_batch_coordinator = False, coordinator_course = None,
                       coordinator_semester = None, coordinator_division = None,
                       is_hod = True, hod_course = Some ''MCA''\<rparr>"

definition hod_MCA :: user where
  "hod_MCA = \<lparr>user_id = 4, role = ''teacher'', teacher_profile = Some hod_MCA_profile,
               student_profile = None\<rparr>"

definition hod_MMS_profile :: teacher where
  "hod_MMS_profile = \<lparr>is_batch_coordinator = False, coordinator_course = None,
                       coordinator_semester = None, coordinator_division = None,
                       is_hod = True, hod_course = Some ''MMS''\<rparr>"

definition hod_MMS :: user where
  "hod_MMS = \<lparr>user_id = 5, role = ''teacher'', teacher_profile = Some hod_MMS_profile,
               student_profile = None\<rparr>"

definition admin_user :: user where
  "admin_user = \<lparr>user_id = 6, role = ''admin'', teacher_profile = None,
                  student_profile = None\<rparr>"

text \<open>A request for room 1 on day 100, from minute \<open>st\<close> to minute \<open>en\<close> of the day.\<close>

definition slot :: "time \<Rightarrow> time \<Rightarrow> room_request" where
  "slot st en = \<lparr>rq_room_id = 1, rq_purpose = ''seminar'', rq_booking_date = 100,
                  rq_start_time = st, rq_end_time = en\<rparr>"

text \<open>The database with one room and nothing else.\<close>

definition s_init :: state where
  "s_init = \<lparr>rooms = [\<lparr>room_id = 1, room_number = ''R101'', capacity = 40\<rparr>],
              bookings = [], leaves = [], booking_seq = 0, leave_seq = 0\<rparr>"

text \<open>
  A student of division A books 10:00 to 11:00; the coordinator and then the head of
  department approve.
\<close>

definition approved_trace :: "op list" where
  "approved_trace =
     [RequestRoom 0 student_A (slot 600 660),
      CoordinatorAction coord_A 1 (Some ''approve''),
      HodAction hod_MCA 1 (Some ''approve'')]"

definition s_approved :: state where
  "s_approved = snd (run s_init approved_trace)"

text \<open>
  Two requests for overlapping slots of the same room and day, made while neither is
  approved, then both approved by the coordinator and by the head of department.
\<close>

definition double_booking_trace :: "op list" where
  "double_booking_trace =
     [RequestRoom 0 student_A (slot 600 660),
      RequestRoom 1 student_A (slot 630 690),
      CoordinatorAction coord_A 1 (Some ''approve''),
      CoordinatorAction coord_A 2 (Some ''approve''),
      HodAction hod_MCA 1 (Some ''approve''),
      HodAction hod_MCA 2 (Some ''approve'')]"

text \<open>
  Two different APPROVED bookings of one room and day whose half-open intervals
  overlap.
\<close>

definition overlapping_approved_pair :: "state \<Rightarrow> bool" where
  "overlapping_approved_pair s =
     list_ex (\<lambda>b1. list_ex (\<lambda>b2. b_id b1 \<noteq> b_id b2 \<and> b_room b1 = b_room b2
                \<and> booking_date b1 = booking_date b2
                \<and> b_status b1 = ''APPROVED'' \<and> b_status b2 = ''APPROVED''
                \<and> start_time b1 < end_time b2 \<and> end_time b1 > start_time b2) (bookings s))
       (bookings s)"

text \<open>
  A student of division B books 10:00 to 11:00: a booking waiting for its coordinator.
\<close>

definition s_pending_B :: state where
  "s_pending_B = snd (run s_init [RequestRoom 0 student_B (slot 600 660)])"

text \<open>
  A student of division A (course MCA) books 10:00 to 11:00 and the coordinator of
  division A approves: a booking waiting for the head of department.
\<close>

definition s_pending_hod :: state where
  "s_pending_hod = snd (run s_init [RequestRoom 0 student_A (slot 600 660),
                                    CoordinatorAction coord_A 1 (Some ''approve'')])"

text \<open>
  On the approved booking: both approvers reject, then a student of division B asks for
  the same slot.
\<close>

definition reject_trace :: "op list" where
  "reject_trace =
     [CoordinatorAction coord_A 1 (Some ''reject''),
      HodAction hod_MCA 1 (Some ''reject''),
      RequestRoom 7 student_B (slot 600 660)]"

text \<open>Leave requests from day 8 to day 10, and from day 10 back to day 8.\<close>

definition leave_ok :: leave_request where
  "leave_ok = \<lparr>rq_reason = ''fever'', rq_from_date = 8, rq_to_date = 10, rq_document = None\<rparr>"

definition leave_backwards :: leave_request where
  "leave_backwards = \<lparr>rq_reason = ''fever'', rq_from_date = 10, rq_to_date = 8, rq_document = None\<rparr>"

text \<open>A student of division A applies for leave and the coordinator approves at time 5.\<close>

definition leave_trace :: "op list" where
  "leave_trace =
     [ApplyLeave 1 student_A leave_ok,
      CoordinatorLeaveAction 5 coord_A 1 (Some ''approve'') (RemarkText ''ok'')]"

definition s_leave_decided :: state where
  "s_leave_decided = snd (run s_init leave_trace)"

section \<open>Auxiliary facts\<close>

subsection \<open>Unfolding the example data and the views\<close>

lemmas fixture_defs = div_A_def div_B_def student_A_def student_B_def coord_A_def hod_MCA_def
  hod_MMS_def admin_user_def slot_def s_init_def approved_trace_def coord_A_profile_def
  hod_MCA_profile_def hod_MMS_profile_def

lemmas op_defs = request_room_def coordinator_action_def hod_action_def apply_leave_def
  coordinator_leave_action_def get_room_def get_booking_def get_leave_def save_booking_def
  save_leave_def create_booking_def clash_exists_def full_clean_def clean_fields_def
  StudentLeave_clean_def

subsection \<open>Lookups, saves and the clash query\<close>

lemma get_room_Some_id: "get_room s rid = Some r \<Longrightarrow> room_id r = rid"
  by (auto simp: get_room_def find_Some_iff)

lemma clash_exists_iff:
  "clash_exists s rid bdate st en \<longleftrightarrow>
     (\<exists>b \<in> set (bookings s). b_room b = rid \<and> booking_date b = bdate
        \<and> b_status b = ''APPROVED'' \<and> st < end_time b \<and> en > start_time b)"
  by (auto simp: clash_exists_def list_ex_iff)

lemma s_approved_eq: "s_approved =
   \<lparr>rooms = [\<lparr>room_id = 1, room_number = ''R101'', capacity = 40\<rparr>],
    bookings = [\<lparr>b_id = 1, b_room = 1, requested_by = 1, b_division = Some div_A,
            purpose = ''seminar'', booking_date = 100, start_time = 600, end_time = 660,
            b_status = ''APPROVED'', coordinator_approved = True, hod_approved = True,
            created_at = 0\<rparr>], leaves = [], booking_seq = 1, leave_seq = 0\<rparr>"
  unfolding s_approved_def by (simp add: fixture_defs op_defs)

lemma find_map_upd_same:
  "find (\<lambda>x. f x = i) xs = Some b \<Longrightarrow> f b' = i \<Longrightarrow>
   find (\<lambda>x. f x = i) (map (\<lambda>x. if f x = f b' then b' else x) xs) = Some b'"
  by (induction xs) (auto split: if_splits)

lemma get_booking_Some_id: "get_booking s i = Some b \<Longrightarrow> b_id b = i"
  by (auto simp: get_booking_def find_Some_iff)

lemma get_booking_save_same:
  "get_booking s i = Some b \<Longrightarrow> b_id b' = i \<Longrightarrow> get_booking (save_booking s b') i = Some b'"
  unfolding get_booking_def save_booking_def
  using find_map_upd_same [of b_id i "bookings s" b b'] by simp

subsection \<open>Statuses stay within the choices\<close>

lemma statuses_save_booking:
  "list_all (\<lambda>b. b_status b \<in> set STATUS_CHOICES) (bookings s) \<Longrightarrow>
   b_status b' \<in> set STATUS_CHOICES \<Longrightarrow>
   list_all (\<lambda>b. b_status b \<in> set STATUS_CHOICES) (bookings (save_booking s b'))"
  by (auto simp: save_booking_def list_all_iff)

lemma status_literals:
  "''PENDING_HOD'' \<in> set STATUS_CHOICES" "''REJECTED'' \<in> set STATUS_CHOICES"
  "''APPROVED'' \<in> set STATUS_CHOICES" "''PENDING_COORDINATOR'' \<in> set STATUS_CHOICES"
  by (simp_all add: STATUS_CHOICES_def)

lemma statuses_coordinator_action:
  assumes "list_all (\<lambda>b. b_status b \<in> set STATUS_CHOICES) (bookings s)"
  shows "list_all (\<lambda>b. b_status b \<in> set STATUS_CHOICES)
           (bookings (snd (coordinator_action s u i a)))"
  using assms
  by (simp add: coordinator_action_def statuses_save_booking status_literals
      split: option.splits)

lemma statuses_hod_action:
  assumes "list_all (\<lambda>b. b_status b \<in> set STATUS_CHOICES) (bookings s)"
  shows "list_all (\<lambda>b. b_status b \<in> set STATUS_CHOICES)
           (bookings (snd (hod_action s u i a)))"
  using assms
  by (simp add: hod_action_def statuses_save_booking status_literals
      split: option.splits)

subsection \<open>Leaves\<close>

lemmas leave_fixture_defs = leave_ok_def leave_backwards_def leave_trace_def

lemma s_leave_decided_eq: "s_leave_decided =
   \<lparr>rooms = [\<lparr>room_id = 1, room_number = ''R101'', capacity = 40\<rparr>],
    bookings = [],
    leaves = [\<lparr>l_id = 1, l_student = 1, l_division = div_A, reason = ''fever'',
               from_date = 8, to_date = 10, document = None, l_status = ''APPROVED'',
               coordinator_remark = Some ''ok'', applied_at = 1, decision_at = Some 5\<rparr>],
    booking_seq = 0, leave_seq = 1\<rparr>"
  unfolding s_leave_decided_def by (simp add: leave_fixture_defs fixture_defs op_defs)

subsection \<open>Primary keys and flags along a run\<close>

lemma flag_kept_refl: "flag_kept b b"
  by (simp add: flag_kept_def)

lemma flag_kept_trans: "flag_kept a b \<Longrightarrow> flag_kept b c \<Longrightarrow> flag_kept a c"
  by (auto simp: flag_kept_def)

lemma map_b_id_save:
  "map (b_id \<circ> (\<lambda>x. if b_id x = b_id b' then b' else x)) xs = map b_id xs"
  by (induction xs) auto

lemma get_booking_mem: "get_booking s i = Some b \<Longrightarrow> b \<in> set (bookings s)"
  by (auto simp: get_booking_def find_Some_iff)

lemma distinct_id_unique:
  assumes "distinct (map b_id xs)" and "x \<in> set xs" and "y \<in> set xs" and "b_id x = b_id y"
  shows "x = y"
  using assms by (meson distinct_map inj_onD)

lemma pk_ok_save:
  assumes "pk_ok s" and "get_booking s i = Some b" and "b_id b' = i"
  shows "pk_ok (save_booking s b')"
proof -
  have "b \<in> set (bookings s)"
    using assms(2) by (rule get_booking_mem)
  moreover have "b_id b = i"
    using assms(2) by (rule get_booking_Some_id)
  ultimately have "b_id b' \<le> booking_seq s"
    using assms(1,3) by (auto simp: pk_ok_def list_all_iff)
  then show ?thesis
    using assms(1) by (auto simp: pk_ok_def save_booking_def map_b_id_save list_all_iff)
qed

lemma kept_save:
  assumes "pk_ok s" and "get_booking s i = Some b" and "flag_kept b b'"
  shows "list_all2 flag_kept (bookings s) (bookings (save_booking s b'))"
proof -
  have mem: "b \<in> set (bookings s)"
    using assms(2) by (rule get_booking_mem)
  have d: "distinct (map b_id (bookings s))"
    using assms(1) by (simp add: pk_ok_def)
  have "flag_kept x (if b_id x = b_id b' then b' else x)" if "x \<in> set (bookings s)" for x
  proof (cases "b_id x = b_id b'")
    case True
    then have "b_id x = b_id b"
      using assms(3) by (simp add: flag_kept_def)
    then have "x = b"
      using d that mem by (rule distinct_id_unique [rotated 3])
    then show ?thesis
      using True assms(3) by simp
  next
    case False
    then show ?thesis by (simp add: flag_kept_refl)
  qed
  then show ?thesis
    by (simp add: save_booking_def list_all2_map2 list_all2_same)
qed

lemma pk_ok_create:
  "pk_ok s \<Longrightarrow> pk_ok (create_booking s now rid uid dv p bd st en stat)"
  by (fastforce simp: pk_ok_def create_booking_def list_all_iff)

lemma pk_ok_step: "pk_ok s \<Longrightarrow> pk_ok (snd (step s x))"
proof (cases x)
  case (RequestRoom now u d)
  then show "pk_ok s \<Longrightarrow> ?thesis"
    by (auto simp: request_room_def pk_ok_create split: option.splits)
next
  case (CoordinatorAction u i a)
  then show "pk_ok s \<Longrightarrow> ?thesis"
    by (auto simp: coordinator_action_def get_booking_Some_id split: option.splits
        intro!: pk_ok_save)
next
  case (HodAction u i a)
  then show "pk_ok s \<Longrightarrow> ?thesis"
    by (auto simp: hod_action_def get_booking_Some_id split: option.splits
        intro!: pk_ok_save)
next
  case (ApplyLeave now u d)
  then show "pk_ok s \<Longrightarrow> ?thesis"
    by (auto simp: apply_leave_def Let_def pk_ok_def split: option.splits)
next
  case (CoordinatorLeaveAction now u i a r)
  then show "pk_ok s \<Longrightarrow> ?thesis"
    by (auto simp: coordinator_leave_action_def Let_def pk_ok_def save_leave_def
        split: option.splits)
qed

text \<open>One step: the old rows keep their place, and what is appended has both flags False.\<close>

lemma step_bookings:
  assumes "pk_ok s"
  shows "\<exists>new. bookings (snd (step s x)) = take (length (bookings s)) (bookings (snd (step s x))) @ new
            \<and> length (bookings s) \<le> length (bookings (snd (step s x)))
            \<and> list_all2 flag_kept (bookings s) (take (length (bookings s)) (bookings (snd (step s x))))
            \<and> list_all (\<lambda>b. \<not> coordinator_approved b \<and> \<not> hod_approved b) new"
proof -
  have same: "list_all2 flag_kept (bookings s) (bookings s)"
    by (simp add: list_all2_same flag_kept_refl)
  have upd: "?thesis" if "list_all2 flag_kept (bookings s) (bookings (snd (step s x)))"
  proof -
    have "length (bookings (snd (step s x))) = length (bookings s)"
      using that by (simp add: list_all2_lengthD)
    then show ?thesis
      using that by simp
  qed
  show ?thesis
  proof (cases x)
    case (RequestRoom now u d)
    have "bookings (snd (request_room s now u d)) = bookings s
        \<or> (\<exists>b. bookings (snd (request_room s now u d)) = bookings s @ [b]
              \<and> \<not> coordinator_approved b \<and> \<not> hod_approved b)"
      by (auto simp: request_room_def create_booking_def split: option.splits)
    then show ?thesis
      using RequestRoom same by auto
  next
    case (CoordinatorAction u i a)
    have "list_all2 flag_kept (bookings s) (bookings (snd (coordinator_action s u i a)))"
      using assms same
      by (auto simp: coordinator_action_def flag_kept_def split: option.splits
          intro!: kept_save)
    then show ?thesis
      using CoordinatorAction upd by simp
  next
    case (HodAction u i a)
    have "list_all2 flag_kept (bookings s) (bookings (snd (hod_action s u i a)))"
      using assms same
      by (auto simp: hod_action_def flag_kept_def split: option.splits
          intro!: kept_save)
    then show ?thesis
      using HodAction upd by simp
  next
    case (ApplyLeave now u d)
    have "bookings (snd (apply_leave s now u d)) = bookings s"
      by (auto simp: apply_leave_def Let_def split: option.splits)
    then show ?thesis
      using ApplyLeave same by simp
  next
    case (CoordinatorLeaveAction now u i a r)
    have "bookings (snd (coordinator_leave_action s now u i a r)) = bookings s"
      by (auto simp: coordinator_leave_action_def Let_def save_leave_def split: option.splits)
    then show ?thesis
      using CoordinatorLeaveAction same by simp
  qed
qed

lemma kept_chain:
  assumes "list_all2 flag_kept xs (take (length xs) ys)" and "length xs \<le> length ys"
    and "list_all2 flag_kept ys (take (length ys) zs)" and "length ys \<le> length zs"
  shows "list_all2 flag_kept xs (take (length xs) zs)"
  using assms
  by (auto simp: list_all2_conv_all_nth intro: flag_kept_trans)

lemma snd_run_Cons: "snd (run s (x # xs)) = snd (run (snd (step s x)) xs)"
  by (simp split: prod.splits)

lemma run_bookings:
  "pk_ok s \<Longrightarrow>
     length (bookings s) \<le> length (bookings (snd (run s ops)))
   \<and> list_all2 flag_kept (bookings s) (take (length (bookings s)) (bookings (snd (run s ops))))"
proof (induction ops arbitrary: s)
  case Nil
  then show ?case
    by (simp add: list_all2_same flag_kept_refl)
next
  case (Cons x xs)
  let ?s1 = "snd (step s x)"
  have ok1: "pk_ok ?s1"
    using Cons.prems by (rule pk_ok_step)
  have st: "length (bookings s) \<le> length (bookings ?s1)"
    "list_all2 flag_kept (bookings s) (take (length (bookings s)) (bookings ?s1))"
    using step_bookings [OF Cons.prems, of x] by auto
  have ih: "length (bookings ?s1) \<le> length (bookings (snd (run ?s1 xs)))"
    "list_all2 flag_kept (bookings ?s1) (take (length (bookings ?s1)) (bookings (snd (run ?s1 xs))))"
    using Cons.IH [OF ok1] by auto
  show ?case
    unfolding snd_run_Cons
    using st ih kept_chain [OF st(2) st(1) ih(2) ih(1)] by simp
qed

text \<open>
  Every state reached from one that satisfies the primary-key constraint satisfies it
  too; the empty tables satisfy it.
\<close>

lemma primary_keys_preserved:
  assumes "pk_ok s"
  shows "pk_ok (snd (run s ops))"
  using assms
proof (induction ops arbitrary: s)
  case Nil
  then show ?case by simp
next
  case (Cons x xs)
  have "pk_ok (snd (step s x))"
    using Cons.prems by (rule pk_ok_step)
  then have "pk_ok (snd (run (snd (step s x)) xs))"
    by (rule Cons.IH)
  then show ?case
    by (simp only: snd_run_Cons)
qed

lemma pk_ok_s_init: "pk_ok s_init"
  by (simp add: pk_ok_def s_init_def)

text \<open>A request answered with an error response leaves the state as it was.\<close>

lemma failed_request_changes_nothing:
  assumes "fst (step s x) = Failed e"
  shows "snd (step s x) = s"
proof (cases x)
  case (RequestRoom now u d)
  then show ?thesis
    using assms by (auto simp: request_room_def split: option.splits if_splits)
next
  case (CoordinatorAction u i a)
  then show ?thesis
    using assms by (auto simp: coordinator_action_def split: option.splits if_splits)
next
  case (HodAction u i a)
  then show ?thesis
    using assms by (auto simp: hod_action_def split: option.splits if_splits)
next
  case (ApplyLeave now u d)
  then show ?thesis
    using assms by (auto simp: apply_leave_def Let_def split: option.splits if_splits)
next
  case (CoordinatorLeaveAction now u i a r)
  then show ?thesis
    using assms
    by (auto simp: coordinator_leave_action_def Let_def split: option.splits if_splits)
qed

section \<open>Clash detection\<close>

text \<open>
  Claim C1. For a request that names an existing room, request_room answers with the
  Conflict error if and only if some APPROVED booking of the same room and date
  overlaps the requested half-open interval, that is \<open>start < end2\<close> and
  \<open>end > start2\<close>. Bookings in any other status do not count. For a teacher, or a
  student with a profile, the request succeeds exactly when there is no such booking;
  so a request that starts when an approved booking ends succeeds.
\<close>

theorem request_room_conflict_iff:
  assumes "get_room s (rq_room_id d) = Some r"
  shows "(fst (request_room s now u d) = Failed Conflict \<longleftrightarrow>
            (\<exists>b \<in> set (bookings s). b_room b = rq_room_id d
               \<and> booking_date b = rq_booking_date d \<and> b_status b = ''APPROVED''
               \<and> rq_start_time d < end_time b \<and> rq_end_time d > start_time b))
       \<and> ((role u = ''teacher'' \<or> (role u = ''student'' \<and> student_profile u \<noteq> None)) \<longrightarrow>
            (fst (request_room s now u d) = Created \<longleftrightarrow>
              \<not> (\<exists>b \<in> set (bookings s). b_room b = rq_room_id d
                 \<and> booking_date b = rq_booking_date d \<and> b_status b = ''APPROVED''
                 \<and> rq_start_time d < end_time b \<and> rq_end_time d > start_time b)))"
proof -
  have rid: "room_id r = rq_room_id d"
    using assms by (rule get_room_Some_id)
  show ?thesis
    using assms rid
    by (auto simp add: request_room_def clash_exists_iff split: option.splits)
qed

text \<open>
  With 10:00 to 11:00 approved, 10:30 to 11:30 is refused and 11:00 to 12:00 is
  accepted; while the first booking is still pending, 10:30 to 11:30 is accepted.
\<close>

theorem request_room_conflict_iff_witness:
  "fst (request_room s_approved 5 student_B (slot 630 690)) = Failed Conflict
   \<and> fst (request_room s_approved 5 student_B (slot 660 720)) = Created
   \<and> fst (request_room (snd (run s_init [RequestRoom 0 student_A (slot 600 660)]))
           5 student_B (slot 630 690)) = Created"
proof -
  let ?r = "\<lparr>room_id = 1, room_number = ''R101'', capacity = 40\<rparr>"
  let ?s1 = "snd (run s_init [RequestRoom 0 student_A (slot 600 660)])"
  have g: "get_room s_approved (rq_room_id (slot 630 690)) = Some ?r"
    "get_room s_approved (rq_room_id (slot 660 720)) = Some ?r"
    "get_room ?s1 (rq_room_id (slot 630 690)) = Some ?r"
    by (simp_all add: s_approved_eq fixture_defs op_defs)
  show ?thesis
    using request_room_conflict_iff [OF g(1), of 5 student_B]
      request_room_conflict_iff [OF g(2), of 5 student_B]
      request_room_conflict_iff [OF g(3), of 5 student_B]
    by (simp add: s_approved_eq fixture_defs op_defs)
qed

text \<open>
  Claim C9. Approval does not repeat the clash check. From the database with one room,
  two requests for 10:00 to 11:00 and 10:30 to 11:30 of the same day are both accepted
  (no approved booking exists yet), both are approved by the coordinator and by the
  head of department, every call succeeds, and the final state holds two APPROVED
  bookings of the same room and date whose intervals overlap.
\<close>

theorem double_booking_reachable:
  "fst (run s_init double_booking_trace) = [Created, Created, Done, Done, Done, Done]
   \<and> \<not> overlapping_approved_pair s_init
   \<and> map (\<lambda>b. (b_id b, b_room b, booking_date b, start_time b, end_time b, b_status b))
        (bookings (snd (run s_init double_booking_trace)))
       = [(1, 1, 100, 600, 660, ''APPROVED''), (2, 1, 100, 630, 690, ''APPROVED'')]
   \<and> overlapping_approved_pair (snd (run s_init double_booking_trace))"
  by (simp add: double_booking_trace_def overlapping_approved_pair_def fixture_defs op_defs)

section \<open>Creating a booking\<close>

text \<open>
  Claim C6. Every request_room call that succeeds comes from a teacher or a student and
  appends exactly one booking, with both approval flags False. For a teacher the new
  booking has status PENDING_HOD and no division; for a student it has status
  PENDING_COORDINATOR and the division of the student's own profile.
\<close>

theorem request_room_initial_state:
  assumes "fst (request_room s now u d) = Created"
  shows "(role u = ''teacher'' \<or> role u = ''student'')
       \<and> bookings (snd (request_room s now u d)) = bookings s @ [last (bookings (snd (request_room s now u d)))]
       \<and> \<not> coordinator_approved (last (bookings (snd (request_room s now u d))))
       \<and> \<not> hod_approved (last (bookings (snd (request_room s now u d))))
       \<and> (role u = ''teacher'' \<longrightarrow>
            b_status (last (bookings (snd (request_room s now u d)))) = ''PENDING_HOD''
          \<and> b_division (last (bookings (snd (request_room s now u d)))) = None)
       \<and> (role u = ''student'' \<longrightarrow>
            b_status (last (bookings (snd (request_room s now u d)))) = ''PENDING_COORDINATOR''
          \<and> (\<exists>st. student_profile u = Some st
                \<and> b_division (last (bookings (snd (request_room s now u d)))) = Some (s_division st)))"
  using assms
  by (auto simp add: request_room_def create_booking_def split: option.splits if_splits)

text \<open>A student of division A and a teacher, each on the database with one room.\<close>

theorem request_room_initial_state_witness:
  "b_status (last (bookings (snd (request_room s_init 0 student_A (slot 600 660))))) = ''PENDING_COORDINATOR''
   \<and> b_division (last (bookings (snd (request_room s_init 0 student_A (slot 600 660))))) = Some div_A
   \<and> b_status (last (bookings (snd (request_room s_init 0 hod_MMS (slot 600 660))))) = ''PENDING_HOD''
   \<and> b_division (last (bookings (snd (request_room s_init 0 hod_MMS (slot 600 660))))) = None"
proof -
  have c: "fst (request_room s_init 0 student_A (slot 600 660)) = Created"
     "fst (request_room s_init 0 hod_MMS (slot 600 660)) = Created"
    by (simp_all add: fixture_defs op_defs)
  show ?thesis
    using request_room_initial_state [OF c(1)] request_room_initial_state [OF c(2)]
    by (simp add: fixture_defs)
qed

text \<open>
  Claim C8 as stated fails: with 10:00 to 11:00 approved, an admin who asks for 10:30
  to 11:30 receives the Conflict error, since the clash query runs before the role is
  looked at.
\<close>

theorem request_room_invalid_role_counterexample:
  "role admin_user \<noteq> ''student'' \<and> role admin_user \<noteq> ''teacher''
   \<and> request_room s_approved 5 admin_user (slot 630 690) = (Failed Conflict, s_approved)"
  by (simp add: s_approved_eq fixture_defs op_defs)

text \<open>
  Claim C8, amended. A request_room call by an actor whose role is neither student nor
  teacher never changes the state and always fails: with RoomNotFound when the room
  does not exist, with Conflict when the slot clashes with an approved booking, and
  with the invalid-role error (a 400 response) otherwise. The role is checked after
  the room lookup and the clash query, not before them.
\<close>

theorem request_room_invalid_role:
  assumes "role u \<noteq> ''student''" and "role u \<noteq> ''teacher''"
  shows "snd (request_room s now u d) = s
       \<and> fst (request_room s now u d) =
           (case get_room s (rq_room_id d) of
              None \<Rightarrow> Failed RoomNotFound
            | Some r \<Rightarrow>
                if clash_exists s (rq_room_id d) (rq_booking_date d) (rq_start_time d) (rq_end_time d)
                then Failed Conflict else Failed InvalidRole)"
  using assms
  by (auto simp add: request_room_def dest: get_room_Some_id split: option.splits)

text \<open>The admin asking for the free slot 11:00 to 12:00 gets the invalid-role error.\<close>

theorem request_room_invalid_role_witness:
  "request_room s_approved 5 admin_user (slot 660 720) = (Failed InvalidRole, s_approved)"
proof -
  have r: "role admin_user \<noteq> ''student''" "role admin_user \<noteq> ''teacher''"
    by (simp_all add: admin_user_def)
  show ?thesis
    using request_room_invalid_role [OF r, of s_approved 5 "slot 660 720"]
    by (simp add: prod_eq_iff s_approved_eq fixture_defs op_defs)
qed

section \<open>Deciding a booking\<close>

text \<open>
  Claim C2, evaluated on the code. The booking of a student of division (MCA, 1, A) has
  been approved by its coordinator and by the head of department: its status is
  APPROVED, and coordinator_requests no longer lists it for the coordinator of
  (MCA, 1, A). That coordinator rejects it: coordinator_action answers 200 and the
  booking becomes REJECTED, where the claim demands an invalid-transition error and an
  unchanged booking. The coordinator's approve is accepted as well and moves the
  booking back to PENDING_HOD, and the head of department's reject is accepted on the
  final APPROVED. Neither view reads the status before it writes the new one.
\<close>

theorem decide_booking_ignores_status:
  "map (\<lambda>b. (b_id b, b_division b, b_status b)) (bookings s_approved)
     = [(1, Some div_A, ''APPROVED'')]
   \<and> coordinator_requests s_approved coord_A = Inr []
   \<and> hod_requests s_approved hod_MCA = Inr []
   \<and> fst (coordinator_action s_approved coord_A 1 (Some ''reject'')) = Done
   \<and> map b_status (bookings (snd (coordinator_action s_approved coord_A 1 (Some ''reject''))))
     = [''REJECTED'']
   \<and> fst (coordinator_action s_approved coord_A 1 (Some ''approve'')) = Done
   \<and> map b_status (bookings (snd (coordinator_action s_approved coord_A 1 (Some ''approve''))))
     = [''PENDING_HOD'']
   \<and> fst (hod_action s_approved hod_MCA 1 (Some ''reject'')) = Done
   \<and> map b_status (bookings (snd (hod_action s_approved hod_MCA 1 (Some ''reject''))))
     = [''REJECTED'']"
  by (simp add: s_approved_eq coordinator_requests_def hod_requests_def fixture_defs op_defs)

text \<open>
  Claim C3, evaluated on the code. The booking of a student of division (MCA, 1, B)
  waits for its coordinator. The batch coordinator of (MCA, 1, A), whose scope triple
  differs from the booking's division, approves it: coordinator_action answers 200 and
  the booking moves to PENDING_HOD, where the claim demands an authorization error and
  no change. The gate of coordinator_action reads the role and the
  is_batch_coordinator flag only, while coordinator_requests, behind the same gate,
  does not list this booking for this coordinator.
\<close>

theorem coordinator_action_ignores_scope:
  "map (\<lambda>b. (b_id b, b_division b, b_status b)) (bookings s_pending_B)
     = [(1, Some div_B, ''PENDING_COORDINATOR'')]
   \<and> teacher_profile coord_A = Some coord_A_profile
   \<and> (coordinator_course coord_A_profile, coordinator_semester coord_A_profile,
      coordinator_division coord_A_profile)
     \<noteq> (Some (course div_B), Some (semester div_B), Some (division_letter div_B))
   \<and> coordinator_requests s_pending_B coord_A = Inr []
   \<and> fst (coordinator_action s_pending_B coord_A 1 (Some ''approve'')) = Done
   \<and> map (\<lambda>b. (b_id b, b_status b, coordinator_approved b))
        (bookings (snd (coordinator_action s_pending_B coord_A 1 (Some ''approve''))))
     = [(1, ''PENDING_HOD'', True)]"
  by (simp add: s_pending_B_def coordinator_requests_def fixture_defs op_defs)

text \<open>
  Claim C5, evaluated on the code. The booking of a student of division (MCA, 1, A)
  waits for the head of department. The head of department of MMS approves it:
  hod_action answers 200 and the booking becomes APPROVED, where the claim demands an
  authorization error and no change. The gate of hod_action reads the role and the
  is_hod flag only, while hod_requests lists this booking for the head of department
  of MCA and not for the one of MMS.
\<close>

theorem hod_action_ignores_course:
  "map (\<lambda>b. (b_id b, b_division b, b_status b)) (bookings s_pending_hod)
     = [(1, Some div_A, ''PENDING_HOD'')]
   \<and> teacher_profile hod_MMS = Some hod_MMS_profile
   \<and> is_hod hod_MMS_profile
   \<and> hod_course hod_MMS_profile \<noteq> Some (course div_A)
   \<and> hod_requests s_pending_hod hod_MMS = Inr []
   \<and> map_sum id (map b_id) (hod_requests s_pending_hod hod_MCA) = Inr [1]
   \<and> fst (hod_action s_pending_hod hod_MMS 1 (Some ''approve'')) = Done
   \<and> map (\<lambda>b. (b_id b, b_status b, hod_approved b))
        (bookings (snd (hod_action s_pending_hod hod_MMS 1 (Some ''approve''))))
     = [(1, ''APPROVED'', True)]"
  by (simp add: s_pending_hod_def hod_requests_def fixture_defs op_defs)

text \<open>
  Claim C10. The approval flags only grow. Along every sequence of workflow requests
  that starts in a state satisfying the primary-key constraint, every booking keeps
  its place and its id, and each of its flags is unchanged or True at the end; so a
  flag that is True stays True, also through a reject. The bookings one request adds
  have both flags False. A coordinator's approve that succeeds leaves
  coordinator_approved set on the booking, a head of department's leaves hod_approved
  set.
\<close>

theorem approval_flags_monotone:
  assumes "pk_ok s"
  shows "length (bookings s) \<le> length (bookings (snd (run s ops)))
       \<and> list_all2 flag_kept (bookings s)
           (take (length (bookings s)) (bookings (snd (run s ops))))
       \<and> (\<forall>k < length (bookings s).
             (coordinator_approved (bookings s ! k) \<longrightarrow>
                coordinator_approved (bookings (snd (run s ops)) ! k))
           \<and> (hod_approved (bookings s ! k) \<longrightarrow>
                hod_approved (bookings (snd (run s ops)) ! k)))
       \<and> list_all (\<lambda>b. \<not> coordinator_approved b \<and> \<not> hod_approved b)
           (drop (length (bookings s)) (bookings (snd (step s x))))
       \<and> (fst (coordinator_action s u i (Some ''approve'')) = Done \<longrightarrow>
            (\<exists>b. get_booking (snd (coordinator_action s u i (Some ''approve''))) i = Some b
                 \<and> coordinator_approved b))
       \<and> (fst (hod_action s u i (Some ''approve'')) = Done \<longrightarrow>
            (\<exists>b. get_booking (snd (hod_action s u i (Some ''approve''))) i = Some b
                 \<and> hod_approved b))"
proof -
  let ?s' = "snd (run s ops)"
  have len: "length (bookings s) \<le> length (bookings ?s')"
    and kept: "list_all2 flag_kept (bookings s) (take (length (bookings s)) (bookings ?s'))"
    using run_bookings [OF assms, of ops] by auto
  have idx: "(coordinator_approved (bookings s ! k) \<longrightarrow> coordinator_approved (bookings ?s' ! k))
           \<and> (hod_approved (bookings s ! k) \<longrightarrow> hod_approved (bookings ?s' ! k))"
    if "k < length (bookings s)" for k
  proof -
    have "flag_kept (bookings s ! k) (take (length (bookings s)) (bookings ?s') ! k)"
      using kept that by (rule list_all2_nthD)
    then show ?thesis
      using that by (auto simp: flag_kept_def)
  qed
  obtain new where new: "bookings (snd (step s x))
        = take (length (bookings s)) (bookings (snd (step s x))) @ new"
      "length (bookings s) \<le> length (bookings (snd (step s x)))"
      "list_all (\<lambda>b. \<not> coordinator_approved b \<and> \<not> hod_approved b) new"
    using step_bookings [OF assms, of x] by blast
  have "drop (length (bookings s)) (bookings (snd (step s x))) = new"
    using new(1,2) by (metis append_eq_conv_conj length_take min.absorb2)
  then have fresh: "list_all (\<lambda>b. \<not> coordinator_approved b \<and> \<not> hod_approved b)
           (drop (length (bookings s)) (bookings (snd (step s x))))"
    using new(3) by simp
  have ca: "fst (coordinator_action s u i (Some ''approve'')) = Done \<longrightarrow>
            (\<exists>b. get_booking (snd (coordinator_action s u i (Some ''approve''))) i = Some b
                 \<and> coordinator_approved b)"
    by (auto simp: coordinator_action_def get_booking_Some_id get_booking_save_same
        split: option.splits if_splits)
  have ha: "fst (hod_action s u i (Some ''approve'')) = Done \<longrightarrow>
            (\<exists>b. get_booking (snd (hod_action s u i (Some ''approve''))) i = Some b
                 \<and> hod_approved b)"
    by (auto simp: hod_action_def get_booking_Some_id get_booking_save_same
        split: option.splits if_splits)
  show ?thesis
    using len kept idx fresh ca ha by blast
qed

text \<open>
  The approved booking keeps both flags through two rejects and a new request; the
  booking a request adds has neither.
\<close>

theorem approval_flags_monotone_witness:
  "pk_ok s_approved
   \<and> coordinator_approved (bookings s_approved ! 0) \<and> hod_approved (bookings s_approved ! 0)
   \<and> fst (run s_approved reject_trace) = [Done, Done, Created]
   \<and> coordinator_approved (bookings (snd (run s_approved reject_trace)) ! 0)
   \<and> hod_approved (bookings (snd (run s_approved reject_trace)) ! 0)
   \<and> list_all (\<lambda>b. \<not> coordinator_approved b \<and> \<not> hod_approved b)
        (drop 1 (bookings (snd (step s_approved (RequestRoom 7 student_B (slot 660 720))))))"
proof -
  have pk: "pk_ok s_approved"
    by (simp add: pk_ok_def s_approved_eq)
  have f: "coordinator_approved (bookings s_approved ! 0)" "hod_approved (bookings s_approved ! 0)"
    "length (bookings s_approved) = 1"
    by (simp_all add: s_approved_eq)
  have r: "fst (run s_approved reject_trace) = [Done, Done, Created]"
    by (simp add: reject_trace_def s_approved_eq fixture_defs op_defs)
  show ?thesis
    using approval_flags_monotone [OF pk, of reject_trace "RequestRoom 7 student_B (slot 660 720)"]
      pk f r
    by simp
qed

section \<open>Student leave\<close>

text \<open>
  Claim C7. For a student with a student profile: apply_leave with \<open>to_date\<close>
  before \<open>from_date\<close> fails with the validation error and leaves the state as it
  was. With \<open>from_date \<le> to_date\<close>, equality included, and a reason that passes the
  field validation (it is not blank), the call succeeds and appends one leave, with
  status PENDING, the division of the student's profile, the requested dates and no
  decision time.
\<close>

theorem apply_leave_dates:
  assumes "role u = ''student''" and "student_profile u = Some st"
  shows "(rq_to_date d < rq_from_date d \<longrightarrow>
            apply_leave s now u d = (Failed ValidationError, s))
       \<and> (rq_from_date d \<le> rq_to_date d \<and> rq_reason d \<noteq> [] \<longrightarrow>
            fst (apply_leave s now u d) = Created
          \<and> leaves (snd (apply_leave s now u d))
              = leaves s @ [last (leaves (snd (apply_leave s now u d)))]
          \<and> l_status (last (leaves (snd (apply_leave s now u d)))) = ''PENDING''
          \<and> l_division (last (leaves (snd (apply_leave s now u d)))) = s_division st
          \<and> l_student (last (leaves (snd (apply_leave s now u d)))) = student_id st
          \<and> from_date (last (leaves (snd (apply_leave s now u d)))) = rq_from_date d
          \<and> to_date (last (leaves (snd (apply_leave s now u d)))) = rq_to_date d
          \<and> decision_at (last (leaves (snd (apply_leave s now u d)))) = None)"
  using assms
  by (simp add: apply_leave_def full_clean_def clean_fields_def StudentLeave_clean_def Let_def
      not_less)

text \<open>Day 10 back to day 8 is refused; day 8 to day 10 and day 8 to day 8 are accepted.\<close>

theorem apply_leave_dates_witness:
  "apply_leave s_init 1 student_A leave_backwards = (Failed ValidationError, s_init)
   \<and> fst (apply_leave s_init 1 student_A leave_ok) = Created
   \<and> fst (apply_leave s_init 1 student_A (leave_ok\<lparr>rq_to_date := 8\<rparr>)) = Created
   \<and> l_division (last (leaves (snd (apply_leave s_init 1 student_A leave_ok)))) = div_A
   \<and> l_status (last (leaves (snd (apply_leave s_init 1 student_A leave_ok)))) = ''PENDING''"
proof -
  have r: "role student_A = ''student''"
    and p: "student_profile student_A = Some \<lparr>student_id = 1, s_division = div_A\<rparr>"
    by (simp_all add: fixture_defs)
  show ?thesis
    using apply_leave_dates [OF r p, of leave_backwards s_init 1]
      apply_leave_dates [OF r p, of leave_ok s_init 1]
      apply_leave_dates [OF r p, of "leave_ok\<lparr>rq_to_date := 8\<rparr>" s_init 1]
    by (simp add: leave_fixture_defs)
qed

text \<open>
  Claim C4, evaluated on the code. A leave of a student of division (MCA, 1, A) was
  approved by the coordinator of that division at time 5 with the remark "ok"; its
  status is APPROVED, and coordinator_leave_requests no longer lists it. The same
  coordinator decides it again at time 9 with reject and no remark:
  coordinator_leave_action answers 200 and overwrites the status, the remark and the
  decision time, where the claim demands an invalid-transition error and all three
  unchanged. The first decision, on the PENDING leave, is recorded as the claim says.
  The view does not read the status before it writes the new one.
\<close>

theorem decide_leave_ignores_status:
  "coordinator_leave_requests (snd (apply_leave s_init 1 student_A leave_ok)) coord_A
     = Inr [\<lparr>l_id = 1, l_student = 1, l_division = div_A, reason = ''fever'',
              from_date = 8, to_date = 10, document = None, l_status = ''PENDING'',
              coordinator_remark = None, applied_at = 1, decision_at = None\<rparr>]
   \<and> map (\<lambda>l. (l_id l, l_status l, coordinator_remark l, decision_at l))
        (leaves s_leave_decided)
     = [(1, ''APPROVED'', Some ''ok'', Some 5)]
   \<and> coordinator_leave_requests s_leave_decided coord_A = Inr []
   \<and> fst (coordinator_leave_action s_leave_decided 9 coord_A 1 (Some ''reject'')
           RemarkMissing) = Done
   \<and> map (\<lambda>l. (l_id l, l_status l, coordinator_remark l, decision_at l))
        (leaves (snd (coordinator_leave_action s_leave_decided 9 coord_A 1 (Some ''reject'')
           RemarkMissing)))
     = [(1, ''REJECTED'', Some [], Some 9)]"
  by (simp add: s_leave_decided_eq coordinator_leave_requests_def leave_fixture_defs
      fixture_defs op_defs)

end
